theory Spec2Isabelle
  imports Main "HOL-Library.Word"
begin

section \<open>The SurveyChain\_FHE contract\<close>

text \<open>
  A shallow embedding of the Solidity contract \<^verbatim>\<open>SurveyChain_FHE\<close>. Solidity value types are
  machine words; a \<^verbatim>\<open>mapping\<close> is a total function whose unwritten slots hold the
  zero value of the value type; the dynamic array \<^verbatim>\<open>surveyIds\<close> is a list.
\<close>

subsection \<open>Value types\<close>

type_synonym address = "160 word"
type_synonym uint256 = "256 word"
type_synonym uint32 = "32 word"
type_synonym bytes32 = "256 word"
type_synonym bytes = "8 word list"

text \<open>\<^verbatim>\<open>euint32\<close> and \<^verbatim>\<open>externalEuint32\<close> are user-defined value types over
  \<^verbatim>\<open>bytes32\<close>: opaque ciphertext handles.\<close>

type_synonym euint32 = bytes32
type_synonym externalEuint32 = bytes32

subsection \<open>Storage\<close>

record Survey =
  title :: string
  encryptedResponse :: euint32
  participantCount :: uint256
  questionCount :: uint256
  creator :: address
  createdAt :: uint256
  isActive :: bool

text \<open>The fields \<^verbatim>\<open>sum\<close> and \<^verbatim>\<open>count\<close> of the source carry a suffix here.\<close>

record AggregationResult =
  sum_agg :: uint32
  count_agg :: uint32
  isVerified :: bool

datatype event =
    SurveyCreated string address
  | ResponseSubmitted string address
  | ResultsAggregated string uint32 uint32
  | ResultsVerified string

text \<open>The three mappings, the array of identifiers, and the log of emitted events.\<close>

record contract =
  surveys :: "string \<Rightarrow> Survey"
  results :: "string \<Rightarrow> AggregationResult"
  hasResponded :: "string \<Rightarrow> address \<Rightarrow> bool"
  surveyIds :: "string list"
  events :: "event list"

definition zero_Survey :: Survey where
  "zero_Survey = \<lparr>title = [], encryptedResponse = 0, participantCount = 0,
     questionCount = 0, creator = 0, createdAt = 0, isActive = False\<rparr>"

definition zero_Result :: AggregationResult where
  "zero_Result = \<lparr>sum_agg = 0, count_agg = 0, isVerified = False\<rparr>"

text \<open>The contract right after its constructor, which writes nothing.\<close>

definition deployed :: contract where
  "deployed = \<lparr>surveys = (\<lambda>_. zero_Survey), results = (\<lambda>_. zero_Result),
     hasResponded = (\<lambda>_ _. False), surveyIds = [], events = []\<rparr>"

subsection \<open>Environment and the FHE library\<close>

record env =
  msg_sender :: address
  block_timestamp :: uint256

text \<open>
  The library \<^verbatim>\<open>@fhevm/solidity/lib/FHE.sol\<close> is imported, not part of the repository, so
  the operations the contract calls are parameters. \<^verbatim>\<open>FHE.fromExternal\<close> and
  \<^verbatim>\<open>FHE.checkSignatures\<close> revert on a bad proof: \<open>None\<close> and \<open>False\<close> stand for the
  revert. \<^verbatim>\<open>FHE.toBytes32\<close> unwraps the handle. \<^verbatim>\<open>FHE.allowThis\<close> and
  \<^verbatim>\<open>FHE.makePubliclyDecryptable\<close> write to the library's access-control list only, never
  to this contract's storage, and are left out.
\<close>

record adapter =
  FHE_fromExternal :: "externalEuint32 \<Rightarrow> bytes \<Rightarrow> euint32 option"
  FHE_isInitialized :: "euint32 \<Rightarrow> bool"
  FHE_add :: "euint32 \<Rightarrow> euint32 \<Rightarrow> euint32"
  FHE_decrypt :: "euint32 \<Rightarrow> uint32"
  FHE_checkSignatures :: "bytes32 list \<Rightarrow> bytes \<Rightarrow> bytes \<Rightarrow> bool"

definition FHE_toBytes32 :: "euint32 \<Rightarrow> bytes32" where
  "FHE_toBytes32 h = h"

text \<open>
  \<^verbatim>\<open>abi.decode(data, (uint32))\<close>: the first 32 bytes are one big-endian word; the decoder
  reverts when the data are shorter than one word or the word does not fit 32 bits.
\<close>

definition be_nat :: "bytes \<Rightarrow> nat" where
  "be_nat bs = foldl (\<lambda>acc b. acc * 256 + unat b) 0 bs"

definition abi_decode_uint32 :: "bytes \<Rightarrow> uint32 option" where
  "abi_decode_uint32 bs =
     (if length bs < 32 then None
      else let v = be_nat (take 32 bs)
           in if v < 2 ^ 32 then Some (of_nat v) else None)"

subsection \<open>Errors\<close>

text \<open>
  One constructor per revert of the source, named as the specification names them:
  \<^item> \<open>AlreadyExists\<close>: "Survey already exists";
  \<^item> \<open>NotFound\<close>: "Survey does not exist";
  \<^item> \<open>Inactive\<close>: "Survey is not active";
  \<^item> \<open>DuplicateResponse\<close>: "Already responded";
  \<^item> \<open>InvalidCiphertext\<close>: \<^verbatim>\<open>FHE.fromExternal\<close> reverts, or "Invalid encrypted input";
  \<^item> \<open>NoResponses\<close>: "No responses to aggregate";
  \<^item> \<open>AlreadyVerified\<close>: "Results already verified";
  \<^item> \<open>ProofInvalid\<close>: \<^verbatim>\<open>FHE.checkSignatures\<close> reverts;
  \<^item> \<open>MismatchedClaim\<close>: "Decryption verification failed";
  \<^item> \<open>DecodeFailure\<close>: \<^verbatim>\<open>abi.decode\<close> reverts;
  \<^item> \<open>ArithmeticOverflow\<close>: the checked increment of \<^verbatim>\<open>participantCount\<close> panics.
\<close>

datatype error =
    AlreadyExists | NotFound | Inactive | DuplicateResponse | InvalidCiphertext
  | NoResponses | AlreadyVerified | ProofInvalid | MismatchedClaim
  | DecodeFailure | ArithmeticOverflow

subsection \<open>The mutating functions\<close>

text \<open>
  Each function body is a function from the storage to a pair: \<open>None\<close> or the error it
  reverted with, and the storage as the body had written it when it stopped. The roll-back
  of a reverted call is \<open>call\<close>, below.
\<close>

definition createSurvey ::
  "env \<Rightarrow> string \<Rightarrow> string \<Rightarrow> uint256 \<Rightarrow> contract \<Rightarrow> error option \<times> contract" where
  "createSurvey e surveyId t qc s =
     (if \<not> length (title (surveys s surveyId)) = 0 then (Some AlreadyExists, s)
      else
        let s1 = s\<lparr>surveys := (surveys s)(surveyId :=
                   \<lparr>title = t, encryptedResponse = 0, participantCount = 0,
                    questionCount = qc, creator = msg_sender e,
                    createdAt = block_timestamp e, isActive = True\<rparr>)\<rparr>;
            s2 = s1\<lparr>surveyIds := surveyIds s1 @ [surveyId]\<rparr>;
            s3 = s2\<lparr>events := events s2 @ [SurveyCreated surveyId (msg_sender e)]\<rparr>
        in (None, s3))"

definition submitResponse ::
  "adapter \<Rightarrow> env \<Rightarrow> string \<Rightarrow> externalEuint32 \<Rightarrow> bytes \<Rightarrow> contract
     \<Rightarrow> error option \<times> contract" where
  "submitResponse ad e surveyId ext inputProof s =
     (if \<not> length (title (surveys s surveyId)) > 0 then (Some NotFound, s)
      else if \<not> isActive (surveys s surveyId) then (Some Inactive, s)
      else if hasResponded s surveyId (msg_sender e) then (Some DuplicateResponse, s)
      else case FHE_fromExternal ad ext inputProof of
          None \<Rightarrow> (Some InvalidCiphertext, s)
        | Some encryptedValue \<Rightarrow>
            if \<not> FHE_isInitialized ad encryptedValue then (Some InvalidCiphertext, s)
            else
              let s1 = s\<lparr>surveys := (surveys s)(surveyId := (surveys s surveyId)
                         \<lparr>encryptedResponse :=
                            (if participantCount (surveys s surveyId) = 0 then encryptedValue
                             else FHE_add ad (encryptedResponse (surveys s surveyId))
                                    encryptedValue)\<rparr>)\<rparr>
              in if participantCount (surveys s1 surveyId) = - 1
                 then (Some ArithmeticOverflow, s1)
                 else
                   let s2 = s1\<lparr>surveys := (surveys s1)(surveyId := (surveys s1 surveyId)
                              \<lparr>participantCount :=
                                 participantCount (surveys s1 surveyId) + 1\<rparr>)\<rparr>;
                       s3 = s2\<lparr>hasResponded := (hasResponded s2)(surveyId :=
                              (hasResponded s2 surveyId)(msg_sender e := True))\<rparr>;
                       s4 = s3\<lparr>events := events s3
                              @ [ResponseSubmitted surveyId (msg_sender e)]\<rparr>
                   in (None, s4))"

definition aggregateResults ::
  "adapter \<Rightarrow> string \<Rightarrow> contract \<Rightarrow> error option \<times> contract" where
  "aggregateResults ad surveyId s =
     (if \<not> length (title (surveys s surveyId)) > 0 then (Some NotFound, s)
      else if \<not> isActive (surveys s surveyId) then (Some Inactive, s)
      else if \<not> participantCount (surveys s surveyId) > 0 then (Some NoResponses, s)
      else if isVerified (results s surveyId) then (Some AlreadyVerified, s)
      else
        let encryptedSum = encryptedResponse (surveys s surveyId);
            sm = FHE_decrypt ad encryptedSum;
            s1 = s\<lparr>results := (results s)(surveyId :=
                   \<lparr>sum_agg = sm,
                    count_agg = ucast (participantCount (surveys s surveyId)),
                    isVerified = False\<rparr>)\<rparr>;
            s2 = s1\<lparr>events := events s1
                   @ [ResultsAggregated surveyId sm
                        (ucast (participantCount (surveys s1 surveyId)))]\<rparr>
        in (None, s2))"

definition verifyResults ::
  "adapter \<Rightarrow> string \<Rightarrow> bytes \<Rightarrow> bytes \<Rightarrow> contract \<Rightarrow> error option \<times> contract" where
  "verifyResults ad surveyId abiEncodedClearValue decryptionProof s =
     (if \<not> length (title (surveys s surveyId)) > 0 then (Some NotFound, s)
      else if isVerified (results s surveyId) then (Some AlreadyVerified, s)
      else
        let cts = [FHE_toBytes32 (encryptedResponse (surveys s surveyId))]
        in if \<not> FHE_checkSignatures ad cts abiEncodedClearValue decryptionProof
           then (Some ProofInvalid, s)
           else case abi_decode_uint32 abiEncodedClearValue of
               None \<Rightarrow> (Some DecodeFailure, s)
             | Some decodedValue \<Rightarrow>
                 if \<not> decodedValue = sum_agg (results s surveyId)
                 then (Some MismatchedClaim, s)
                 else
                   let s1 = s\<lparr>results := (results s)(surveyId :=
                              (results s surveyId)\<lparr>isVerified := True\<rparr>)\<rparr>;
                       s2 = s1\<lparr>surveys := (surveys s1)(surveyId :=
                              (surveys s1 surveyId)\<lparr>isActive := False\<rparr>)\<rparr>;
                       s3 = s2\<lparr>events := events s2 @ [ResultsVerified surveyId]\<rparr>
                   in (None, s3))"

subsection \<open>The view functions\<close>

definition getSurvey ::
  "string \<Rightarrow> contract
     \<Rightarrow> error + (string \<times> uint256 \<times> uint256 \<times> address \<times> uint256 \<times> bool)" where
  "getSurvey surveyId s =
     (if \<not> length (title (surveys s surveyId)) > 0 then Inl NotFound
      else
        let sv = surveys s surveyId
        in Inr (title sv, participantCount sv, questionCount sv, creator sv,
                createdAt sv, isActive sv))"

definition getResults :: "string \<Rightarrow> contract \<Rightarrow> error + (uint32 \<times> uint32 \<times> bool)" where
  "getResults surveyId s =
     (if \<not> length (title (surveys s surveyId)) > 0 then Inl NotFound
      else
        let r = results s surveyId
        in Inr (sum_agg r, count_agg r, isVerified r))"

definition getAllSurveyIds :: "contract \<Rightarrow> string list" where
  "getAllSurveyIds s = surveyIds s"

definition hasUserResponded :: "string \<Rightarrow> address \<Rightarrow> contract \<Rightarrow> error + bool" where
  "hasUserResponded surveyId user s = Inr (hasResponded s surveyId user)"

subsection \<open>External calls and histories\<close>

datatype operation =
    CreateSurvey string string uint256
  | SubmitResponse string externalEuint32 bytes
  | AggregateResults string
  | VerifyResults string bytes bytes

fun body :: "adapter \<Rightarrow> env \<Rightarrow> operation \<Rightarrow> contract \<Rightarrow> error option \<times> contract" where
  "body ad e (CreateSurvey surveyId t qc) s = createSurvey e surveyId t qc s"
| "body ad e (SubmitResponse surveyId ext inputProof) s =
     submitResponse ad e surveyId ext inputProof s"
| "body ad e (AggregateResults surveyId) s = aggregateResults ad surveyId s"
| "body ad e (VerifyResults surveyId clear proof) s = verifyResults ad surveyId clear proof s"

text \<open>
  A transaction: the body runs on the current storage; when it reverts, every write it
  made is discarded and the storage is the one before the call.
\<close>

definition call :: "adapter \<Rightarrow> env \<Rightarrow> operation \<Rightarrow> contract \<Rightarrow> error option \<times> contract" where
  "call ad e opn s =
     (case body ad e opn s of
        (None, s') \<Rightarrow> (None, s')
      | (Some err, s') \<Rightarrow> (Some err, s))"

text \<open>A history is a list of calls, run one after the other (the ledger is sequential).\<close>

fun run :: "adapter \<Rightarrow> (env \<times> operation) list \<Rightarrow> contract \<Rightarrow> contract" where
  "run ad [] s = s"
| "run ad (c # cs) s = run ad cs (snd (call ad (fst c) (snd c) s))"

text \<open>A call that does not create a survey with the empty title.\<close>

fun titled :: "operation \<Rightarrow> bool" where
  "titled (CreateSurvey surveyId t qc) = (t \<noteq> [])"
| "titled (SubmitResponse surveyId ext inputProof) = True"
| "titled (AggregateResults surveyId) = True"
| "titled (VerifyResults surveyId clear proof) = True"

subsection \<open>A concrete library and concrete histories\<close>

text \<open>
  A stand-in for the FHE library, used to run the contract on concrete inputs: a handle is
  its own plaintext, an input is rejected when its proof is empty, and a decryption proof is
  accepted when it is the byte \<open>1\<close> and the clear value decodes to the handle.
\<close>

definition demo_adapter :: adapter where
  "demo_adapter = \<lparr>FHE_fromExternal = (\<lambda>h p. if p = [] then None else Some h),
     FHE_isInitialized = (\<lambda>h. h \<noteq> 0),
     FHE_add = (\<lambda>a b. a + b),
     FHE_decrypt = (\<lambda>h. ucast h),
     FHE_checkSignatures = (\<lambda>cts clear proof.
        case cts of
          [c] \<Rightarrow> proof = [1] \<and> abi_decode_uint32 clear = Some (ucast c)
        | _ \<Rightarrow> False)\<rparr>"

definition alice :: env where
  "alice = \<lparr>msg_sender = 1, block_timestamp = 1000\<rparr>"

definition bob :: env where
  "bob = \<lparr>msg_sender = 2, block_timestamp = 1001\<rparr>"

definition carol :: env where
  "carol = \<lparr>msg_sender = 3, block_timestamp = 1002\<rparr>"

text \<open>The ABI encoding of a number below 256: 31 zero bytes, then the byte.\<close>

definition clear_byte :: "8 word \<Rightarrow> bytes" where
  "clear_byte b = replicate 31 0 @ [b]"

definition st_created :: contract where
  "st_created = run demo_adapter [(alice, CreateSurvey ''s1'' ''Lunch'' 3)] deployed"

definition st_one :: contract where
  "st_one = run demo_adapter [(alice, SubmitResponse ''s1'' 5 [1])] st_created"

definition st_two :: contract where
  "st_two = run demo_adapter [(bob, SubmitResponse ''s1'' 7 [1])] st_one"

definition st_agg :: contract where
  "st_agg = run demo_adapter [(alice, AggregateResults ''s1'')] st_two"

definition st_late :: contract where
  "st_late = run demo_adapter [(carol, SubmitResponse ''s1'' 1 [1])] st_agg"

definition st_final :: contract where
  "st_final = run demo_adapter [(bob, VerifyResults ''s1'' (clear_byte 12) [1])] st_agg"

text \<open>A storage that no history produces: an active survey whose result is verified.\<close>

definition st_odd :: contract where
  "st_odd = st_two\<lparr>results := (results st_two)(''s1'' :=
     \<lparr>sum_agg = 12, count_agg = 2, isVerified = True\<rparr>)\<rparr>"

text \<open>A survey whose title is the empty string.\<close>

definition st_blank :: contract where
  "st_blank = run demo_adapter [(alice, CreateSurvey ''s1'' [] 3)] deployed"

text \<open>
  A crowd: principal number \<open>k\<close> submits the ciphertext \<open>1\<close>, for every \<open>k\<close> below
  \<open>n\<close>. \<open>crowd_state n\<close> is the storage this leaves, written out.
\<close>

definition respondent :: "nat \<Rightarrow> env" where
  "respondent k = \<lparr>msg_sender = of_nat k, block_timestamp = 2000\<rparr>"

definition crowd_calls :: "nat \<Rightarrow> (env \<times> operation) list" where
  "crowd_calls n = map (\<lambda>k. (respondent k, SubmitResponse ''s1'' 1 [1])) [0..<n]"

definition crowd_state :: "nat \<Rightarrow> contract" where
  "crowd_state n =
     \<lparr>surveys = (\<lambda>_. zero_Survey)(''s1'' :=
        \<lparr>title = ''Lunch'', encryptedResponse = of_nat n, participantCount = of_nat n,
         questionCount = 3, creator = 1, createdAt = 1000, isActive = True\<rparr>),
      results = (\<lambda>_. zero_Result),
      hasResponded = (\<lambda>_ _. False)(''s1'' := (\<lambda>a. unat a < n)),
      surveyIds = [''s1''],
      events = SurveyCreated ''s1'' 1
        # map (\<lambda>k. ResponseSubmitted ''s1'' (of_nat k)) [0..<n]\<rparr>"

definition st_crowded :: contract where
  "st_crowded = run demo_adapter (crowd_calls (2 ^ 32)) st_created"

text \<open>The history that finalizes survey \<open>s1\<close>, and three calls made after it.\<close>

definition history_final :: "(env \<times> operation) list" where
  "history_final =
     [(alice, CreateSurvey ''s1'' ''Lunch'' 3),
      (alice, SubmitResponse ''s1'' 5 [1]),
      (bob, SubmitResponse ''s1'' 7 [1]),
      (alice, AggregateResults ''s1''),
      (bob, VerifyResults ''s1'' (clear_byte 12) [1])]"

definition history_after :: "(env \<times> operation) list" where
  "history_after =
     [(carol, SubmitResponse ''s1'' 1 [1]),
      (bob, CreateSurvey ''s1'' ''Again'' 1),
      (alice, AggregateResults ''s1'')]"

text \<open>A storage that no history produces: the participant counter at its maximum.\<close>

definition st_full :: contract where
  "st_full = st_two\<lparr>surveys := (surveys st_two)(''s1'' :=
     (surveys st_two ''s1'')\<lparr>participantCount := - 1\<rparr>)\<rparr>"

section \<open>Properties\<close>

subsection \<open>Auxiliary facts\<close>

lemmas demo_defs = demo_adapter_def alice_def bob_def carol_def deployed_def zero_Survey_def
  zero_Result_def st_created_def st_one_def st_two_def st_agg_def st_late_def st_final_def

lemma unat_incr: "w \<noteq> - 1 \<Longrightarrow> unat (w + 1) = unat w + 1" for w :: "'a::len word"
proof -
  assume "w \<noteq> - 1"
  then have "1 + w \<noteq> 0"
    by (metis add.commute add_eq_0_iff)
  then show ?thesis
    using unatSuc [of w] by (simp add: add.commute)
qed

lemma foldl_zeros: "foldl (\<lambda>acc b. acc * 256 + unat b) 0 (replicate n (0::8 word)) = 0"
  by (induction n) simp_all

lemma be_nat_zeros: "be_nat (replicate n 0 @ bs) = be_nat bs"
  by (simp add: be_nat_def foldl_zeros)

lemma abi_decode_byte: "abi_decode_uint32 (clear_byte b) = Some (ucast b)"
proof -
  have "unat b < 2 ^ 8"
    using unsigned_less [of b, where ?'a = nat] by simp
  then have "unat b < 2 ^ 32"
    by simp
  moreover have "be_nat (replicate 31 0 @ [b]) = unat b"
    by (simp add: be_nat_zeros) (simp add: be_nat_def)
  ultimately show ?thesis
    by (simp add: abi_decode_uint32_def clear_byte_def Let_def)
qed

text \<open>What an external call returns, one equation per function of the contract.\<close>

lemma call_CreateSurvey:
  "call ad e (CreateSurvey sid t qc) s =
     (if title (surveys s sid) \<noteq> [] then (Some AlreadyExists, s)
      else (None, s\<lparr>surveys := (surveys s)(sid :=
                   \<lparr>title = t, encryptedResponse = 0, participantCount = 0,
                    questionCount = qc, creator = msg_sender e,
                    createdAt = block_timestamp e, isActive = True\<rparr>),
                 surveyIds := surveyIds s @ [sid],
                 events := events s @ [SurveyCreated sid (msg_sender e)]\<rparr>))"
  by (simp add: call_def createSurvey_def Let_def)

lemma call_SubmitResponse:
  "call ad e (SubmitResponse sid ext pf) s =
     (if title (surveys s sid) = [] then (Some NotFound, s)
      else if \<not> isActive (surveys s sid) then (Some Inactive, s)
      else if hasResponded s sid (msg_sender e) then (Some DuplicateResponse, s)
      else case FHE_fromExternal ad ext pf of
          None \<Rightarrow> (Some InvalidCiphertext, s)
        | Some c \<Rightarrow>
            if \<not> FHE_isInitialized ad c then (Some InvalidCiphertext, s)
            else if participantCount (surveys s sid) = - 1 then (Some ArithmeticOverflow, s)
            else (None, s\<lparr>surveys := (surveys s)(sid := (surveys s sid)
                     \<lparr>encryptedResponse :=
                        (if participantCount (surveys s sid) = 0 then c
                         else FHE_add ad (encryptedResponse (surveys s sid)) c),
                      participantCount := participantCount (surveys s sid) + 1\<rparr>),
                   hasResponded := (hasResponded s)(sid :=
                     (hasResponded s sid)(msg_sender e := True)),
                   events := events s @ [ResponseSubmitted sid (msg_sender e)]\<rparr>))"
  by (simp add: call_def submitResponse_def Let_def split: option.splits)

lemma call_AggregateResults:
  "call ad e (AggregateResults sid) s =
     (if title (surveys s sid) = [] then (Some NotFound, s)
      else if \<not> isActive (surveys s sid) then (Some Inactive, s)
      else if participantCount (surveys s sid) = 0 then (Some NoResponses, s)
      else if isVerified (results s sid) then (Some AlreadyVerified, s)
      else (None, s\<lparr>results := (results s)(sid :=
               \<lparr>sum_agg = FHE_decrypt ad (encryptedResponse (surveys s sid)),
                count_agg = ucast (participantCount (surveys s sid)),
                isVerified = False\<rparr>),
             events := events s @ [ResultsAggregated sid
               (FHE_decrypt ad (encryptedResponse (surveys s sid)))
               (ucast (participantCount (surveys s sid)))]\<rparr>))"
  by (simp add: call_def aggregateResults_def Let_def word_gt_0)

lemma call_VerifyResults:
  "call ad e (VerifyResults sid clear pf) s =
     (if title (surveys s sid) = [] then (Some NotFound, s)
      else if isVerified (results s sid) then (Some AlreadyVerified, s)
      else if \<not> FHE_checkSignatures ad [encryptedResponse (surveys s sid)] clear pf
        then (Some ProofInvalid, s)
      else case abi_decode_uint32 clear of
          None \<Rightarrow> (Some DecodeFailure, s)
        | Some v \<Rightarrow>
            if v \<noteq> sum_agg (results s sid) then (Some MismatchedClaim, s)
            else (None, s\<lparr>results := (results s)(sid :=
                     (results s sid)\<lparr>isVerified := True\<rparr>),
                   surveys := (surveys s)(sid := (surveys s sid)\<lparr>isActive := False\<rparr>),
                   events := events s @ [ResultsVerified sid]\<rparr>))"
  by (simp add: call_def verifyResults_def FHE_toBytes32_def Let_def split: option.splits)

lemmas call_simps =
  call_CreateSurvey call_SubmitResponse call_AggregateResults call_VerifyResults

lemma run_append: "run ad (cs @ cs') s = run ad cs' (run ad cs s)"
  by (induction cs arbitrary: s) simp_all

text \<open>A property that every call preserves holds after every history.\<close>

lemma run_preserves:
  assumes step: "\<And>e opn s. P s \<Longrightarrow> P (snd (call ad e opn s))"
    and init: "P s"
  shows "P (run ad cs s)"
  using init
proof (induction cs arbitrary: s)
  case Nil
  then show ?case by simp
next
  case (Cons c cs)
  from Cons.prems have "P (snd (call ad (fst c) (snd c) s))"
    by (rule step)
  then show ?case
    using Cons.IH by simp
qed

text \<open>Facts about the concrete histories.\<close>

lemma clear_bytes:
  "abi_decode_uint32 (clear_byte 12) = Some 12"
  "abi_decode_uint32 (clear_byte 13) = Some 13"
  "abi_decode_uint32 (clear_byte 0) = Some 0"
  by (simp_all add: abi_decode_byte)

lemma st_created_facts:
  "title (surveys st_created ''s1'') = ''Lunch''"
  "isActive (surveys st_created ''s1'')"
  "participantCount (surveys st_created ''s1'') = 0"
  "encryptedResponse (surveys st_created ''s1'') = 0"
  "results st_created ''s1'' = zero_Result"
  by (simp_all add: demo_defs call_simps)

lemma st_two_facts:
  "title (surveys st_two ''s1'') = ''Lunch''"
  "isActive (surveys st_two ''s1'')"
  "participantCount (surveys st_two ''s1'') = 2"
  "encryptedResponse (surveys st_two ''s1'') = 12"
  "\<not> isVerified (results st_two ''s1'')"
  by (simp_all add: demo_defs call_simps)

lemma st_agg_facts:
  "title (surveys st_agg ''s1'') = ''Lunch''"
  "\<not> isVerified (results st_agg ''s1'')"
  "encryptedResponse (surveys st_agg ''s1'') = 12"
  "sum_agg (results st_agg ''s1'') = 12"
  "count_agg (results st_agg ''s1'') = 2"
  "isActive (surveys st_agg ''s1'')"
  by (simp_all add: demo_defs call_simps)

lemma st_agg_history:
  "st_agg = run demo_adapter
     [(alice, CreateSurvey ''s1'' ''Lunch'' 3), (alice, SubmitResponse ''s1'' 5 [1]),
      (bob, SubmitResponse ''s1'' 7 [1]), (alice, AggregateResults ''s1'')] deployed"
  by (simp add: st_agg_def st_two_def st_one_def st_created_def)

lemma st_agg_record:
  "surveyIds st_agg = [''s1'']"
  "participantCount (surveys st_agg ''s1'') = 2"
  "questionCount (surveys st_agg ''s1'') = 3"
  "creator (surveys st_agg ''s1'') = 1"
  "createdAt (surveys st_agg ''s1'') = 1000"
  "hasResponded st_agg ''s1'' 1"
  "\<not> hasResponded st_agg ''s1'' 3"
  by (simp_all add: demo_defs call_simps)

lemma st_late_facts:
  "title (surveys st_late ''s1'') = ''Lunch''"
  "\<not> isVerified (results st_late ''s1'')"
  "encryptedResponse (surveys st_late ''s1'') = 13"
  "sum_agg (results st_late ''s1'') = 12"
  by (simp_all add: demo_defs call_simps)

lemma st_final_facts:
  "title (surveys st_final ''s1'') = ''Lunch''"
  "isVerified (results st_final ''s1'')"
  "\<not> isActive (surveys st_final ''s1'')"
  by (simp_all add: st_final_def call_VerifyResults st_agg_facts clear_bytes demo_adapter_def)

lemma st_final_history:
  "st_final = run demo_adapter
     [(bob, SubmitResponse ''s1'' 7 [1]), (alice, AggregateResults ''s1''),
      (bob, VerifyResults ''s1'' (clear_byte 12) [1])] st_one"
  by (simp add: st_final_def st_agg_def st_two_def)

text \<open>
  The crowd is a history: as long as there are addresses left (\<open>2 ^ 160\<close> of them), one
  more principal can respond, and the storage is \<open>crowd_state\<close>.
\<close>

lemma unat_address_of_nat: "n < 2 ^ 160 \<Longrightarrow> unat (of_nat n :: address) = n"
  by (simp add: unat_of_nat)

lemma uint256_of_nat_eq_0:
  assumes "n < 2 ^ 160"
  shows "(of_nat n :: uint256) = 0 \<longleftrightarrow> n = 0"
proof
  assume "(of_nat n :: uint256) = 0"
  then have "2 ^ 256 dvd n"
    unfolding word_of_nat_eq_0_iff by simp
  then have "n = 0 \<or> 2 ^ 256 \<le> n"
    using dvd_imp_le [of "2 ^ 256" n] by auto
  with assms show "n = 0"
    by simp
qed simp

lemma uint256_of_nat_not_max:
  assumes "n < 2 ^ 160"
  shows "(of_nat n :: uint256) \<noteq> - 1"
proof
  assume "(of_nat n :: uint256) = - 1"
  then have "(of_nat (Suc n) :: uint256) = 0"
    by simp
  then have "2 ^ 256 dvd Suc n"
    unfolding word_of_nat_eq_0_iff by simp
  then have "2 ^ 256 \<le> Suc n"
    by (rule dvd_imp_le) simp
  with assms show False
    by simp
qed

lemma address_eq_of_nat:
  assumes "n < 2 ^ 160"
  shows "(a :: address) = of_nat n \<longleftrightarrow> unat a = n"
  using unat_address_of_nat [OF assms] by (auto simp: word_unat_eq_iff)

lemma crowd_state_0: "crowd_state 0 = st_created"
  by (simp add: crowd_state_def demo_defs call_simps fun_eq_iff)

lemma crowd_step:
  assumes "n < 2 ^ 160"
  shows "call demo_adapter (respondent n) (SubmitResponse ''s1'' 1 [1]) (crowd_state n)
    = (None, crowd_state (Suc n))"
proof -
  have resp: "(\<lambda>a. unat (a :: address) < n)(of_nat n := True) = (\<lambda>a. unat a < Suc n)"
    using assms by (auto simp: fun_eq_iff address_eq_of_nat less_Suc_eq)
  have acc: "(if n = 0 then 1 else of_nat n + 1) = (1 + of_nat n :: uint256)"
    by (simp add: add.commute)
  show ?thesis
    using assms resp acc
    by (simp add: call_SubmitResponse crowd_state_def respondent_def demo_adapter_def
        unat_address_of_nat uint256_of_nat_not_max uint256_of_nat_eq_0 add.commute)
qed

lemma crowd_calls_Suc:
  "crowd_calls (Suc n) = crowd_calls n @ [(respondent n, SubmitResponse ''s1'' 1 [1])]"
  by (simp add: crowd_calls_def)

lemma crowd_run:
  "n \<le> 2 ^ 160 \<Longrightarrow> run demo_adapter (crowd_calls n) st_created = crowd_state n"
proof (induction n)
  case 0
  then show ?case
    by (simp add: crowd_calls_def crowd_state_0)
next
  case (Suc n)
  then have "n < 2 ^ 160" and "run demo_adapter (crowd_calls n) st_created = crowd_state n"
    by simp_all
  then show ?case
    by (simp add: crowd_calls_Suc run_append crowd_step del: upt_Suc)
qed

lemma st_crowded_eq: "st_crowded = crowd_state (2 ^ 32)"
proof -
  have "(2::nat) ^ 32 \<le> 2 ^ 160"
    by (rule power_increasing) simp_all
  then show ?thesis
    unfolding st_crowded_def by (rule crowd_run)
qed

lemma count_truncated:
  "unat (ucast (w :: uint256) :: uint32) = unat w mod 2 ^ 32"
  by (simp add: unsigned_ucast_eq take_bit_eq_mod)

text \<open>Having responded to an existing survey is never undone.\<close>

lemma responded_persists:
  assumes "hasResponded s sid p \<and> title (surveys s sid) \<noteq> []"
  shows "hasResponded (snd (call ad e opn s)) sid p \<and>
    title (surveys (snd (call ad e opn s)) sid) \<noteq> []"
  using assms by (cases opn) (auto simp: call_simps split: option.splits)

lemma responded_after_run:
  assumes "hasResponded s sid p \<and> title (surveys s sid) \<noteq> []"
  shows "hasResponded (run ad cs s) sid p \<and> title (surveys (run ad cs s) sid) \<noteq> []"
  using assms
  by (rule run_preserves [where P = "\<lambda>s. hasResponded s sid p \<and> title (surveys s sid) \<noteq> []",
        rotated]) (rule responded_persists)

lemma st_final_run: "run demo_adapter history_final deployed = st_final"
  by (simp add: history_final_def st_final_def st_agg_def st_two_def st_one_def st_created_def)

lemma st_late_run:
  "run demo_adapter
     [(alice, CreateSurvey ''s1'' ''Lunch'' 3),
      (alice, SubmitResponse ''s1'' 5 [1]),
      (bob, SubmitResponse ''s1'' 7 [1]),
      (alice, AggregateResults ''s1''),
      (carol, SubmitResponse ''s1'' 1 [1])] deployed = st_late"
  by (simp add: st_late_def st_agg_def st_two_def st_one_def st_created_def)

text \<open>A verified result belongs to an existing, inactive survey, and stays so.\<close>

lemma verified_closed_step:
  assumes "isVerified (results s sid) \<longrightarrow>
     title (surveys s sid) \<noteq> [] \<and> \<not> isActive (surveys s sid)"
  shows "isVerified (results (snd (call ad e opn s)) sid) \<longrightarrow>
     title (surveys (snd (call ad e opn s)) sid) \<noteq> [] \<and>
     \<not> isActive (surveys (snd (call ad e opn s)) sid)"
  using assms by (cases opn) (auto simp: call_simps split: option.splits)

lemma verified_closed:
  "isVerified (results (run ad cs deployed) sid) \<longrightarrow>
     title (surveys (run ad cs deployed) sid) \<noteq> [] \<and>
     \<not> isActive (surveys (run ad cs deployed) sid)"
  by (rule run_preserves [where P = "\<lambda>s. isVerified (results s sid) \<longrightarrow>
       title (surveys s sid) \<noteq> [] \<and> \<not> isActive (surveys s sid)"])
    (simp_all add: verified_closed_step deployed_def zero_Result_def)

lemma finalized_step:
  assumes "isVerified (results s sid) \<and> title (surveys s sid) \<noteq> [] \<and>
     \<not> isActive (surveys s sid)"
  shows "isVerified (results (snd (call ad e opn s)) sid) \<and>
     title (surveys (snd (call ad e opn s)) sid) \<noteq> [] \<and>
     \<not> isActive (surveys (snd (call ad e opn s)) sid)"
  using assms by (cases opn) (auto simp: call_simps split: option.splits)

lemma finalized_after_run:
  assumes "isVerified (results s sid) \<and> title (surveys s sid) \<noteq> [] \<and>
     \<not> isActive (surveys s sid)"
  shows "isVerified (results (run ad cs s) sid) \<and> title (surveys (run ad cs s) sid) \<noteq> [] \<and>
     \<not> isActive (surveys (run ad cs s) sid)"
  using assms
  by (rule run_preserves [where P = "\<lambda>s. isVerified (results s sid) \<and>
        title (surveys s sid) \<noteq> [] \<and> \<not> isActive (surveys s sid)", rotated])
    (rule finalized_step)

text \<open>Without a call of \<^verbatim>\<open>aggregateResults\<close>, sum and count stay zero.\<close>

lemma unaggregated_step:
  assumes "opn \<noteq> AggregateResults sid"
    and "sum_agg (results s sid) = 0 \<and> count_agg (results s sid) = 0"
  shows "sum_agg (results (snd (call ad e opn s)) sid) = 0 \<and>
    count_agg (results (snd (call ad e opn s)) sid) = 0"
  using assms by (cases opn) (auto simp: call_simps split: option.splits)

lemma unaggregated_run:
  assumes "AggregateResults sid \<notin> snd ` set cs"
    and "sum_agg (results s sid) = 0 \<and> count_agg (results s sid) = 0"
  shows "sum_agg (results (run ad cs s) sid) = 0 \<and> count_agg (results (run ad cs s) sid) = 0"
  using assms
proof (induction cs arbitrary: s)
  case Nil
  then show ?case by simp
next
  case (Cons c cs)
  from Cons.prems have "snd c \<noteq> AggregateResults sid"
    by auto
  then have "sum_agg (results (snd (call ad (fst c) (snd c) s)) sid) = 0 \<and>
      count_agg (results (snd (call ad (fst c) (snd c) s)) sid) = 0"
    using Cons.prems(2) by (rule unaggregated_step)
  moreover from Cons.prems have "AggregateResults sid \<notin> snd ` set cs"
    by auto
  ultimately show ?case
    using Cons.IH by simp
qed

text \<open>
  The participant count of a survey is the number of principals marked as having responded
  to it. There are \<open>2 ^ 160\<close> addresses, so the checked increment never overflows in a
  history of the contract.
\<close>

lemma Collect_fun_upd_True: "{a. (f(p := True)) a} = insert p {a. f a}"
  by auto

lemma counted_step:
  assumes "unat (participantCount (surveys s sid)) = card {a. hasResponded s sid a} \<and>
     (title (surveys s sid) = [] \<longrightarrow> (\<forall>a. \<not> hasResponded s sid a))"
  shows "unat (participantCount (surveys (snd (call ad e opn s)) sid))
       = card {a. hasResponded (snd (call ad e opn s)) sid a} \<and>
     (title (surveys (snd (call ad e opn s)) sid) = [] \<longrightarrow>
        (\<forall>a. \<not> hasResponded (snd (call ad e opn s)) sid a))"
proof (cases opn)
  case (CreateSurvey sid' t qc)
  with assms show ?thesis
    by (auto simp: call_CreateSurvey)
next
  case (SubmitResponse sid' ext pf)
  with assms show ?thesis
    by (auto simp: call_SubmitResponse Collect_fun_upd_True unat_incr split: option.splits)
next
  case (AggregateResults sid')
  with assms show ?thesis
    by (auto simp: call_AggregateResults)
next
  case (VerifyResults sid' clear pf)
  with assms show ?thesis
    by (auto simp: call_VerifyResults split: option.splits)
qed

lemma counted_and_silent:
  "unat (participantCount (surveys (run ad cs deployed) sid))
       = card {a. hasResponded (run ad cs deployed) sid a} \<and>
     (title (surveys (run ad cs deployed) sid) = [] \<longrightarrow>
        (\<forall>a. \<not> hasResponded (run ad cs deployed) sid a))"
  by (rule run_preserves [where P = "\<lambda>s.
        unat (participantCount (surveys s sid)) = card {a. hasResponded s sid a} \<and>
        (title (surveys s sid) = [] \<longrightarrow> (\<forall>a. \<not> hasResponded s sid a))"])
    (simp_all add: counted_step deployed_def zero_Survey_def)

lemma counted:
  "unat (participantCount (surveys (run ad cs deployed) sid))
     = card {a. hasResponded (run ad cs deployed) sid a}"
  using counted_and_silent [of ad cs sid] by simp

text \<open>In a history, nobody has responded to a survey whose stored title is empty.\<close>

lemma no_title_no_responses:
  assumes "title (surveys (run ad cs deployed) sid) = []"
  shows "\<not> hasResponded (run ad cs deployed) sid a"
  using counted_and_silent [of ad cs sid] assms by simp

text \<open>In a history, a survey with a stored title is on the identifier list.\<close>

lemma titled_listed_step:
  assumes "title (surveys s sid) \<noteq> [] \<longrightarrow> sid \<in> set (surveyIds s)"
  shows "title (surveys (snd (call ad e opn s)) sid) \<noteq> [] \<longrightarrow>
    sid \<in> set (surveyIds (snd (call ad e opn s)))"
  using assms by (cases opn) (auto simp: call_simps split: option.splits)

lemma titled_listed:
  "title (surveys (run ad cs deployed) sid) \<noteq> [] \<longrightarrow>
     sid \<in> set (surveyIds (run ad cs deployed))"
  by (rule run_preserves [where P = "\<lambda>s.
        title (surveys s sid) \<noteq> [] \<longrightarrow> sid \<in> set (surveyIds s)"])
    (simp_all add: titled_listed_step deployed_def zero_Survey_def)

text \<open>So in a history nobody has responded to a survey that was never created.\<close>

lemma unlisted_silent:
  assumes "sid \<notin> set (surveyIds (run ad cs deployed))"
  shows "title (surveys (run ad cs deployed) sid) = [] \<and>
    \<not> hasResponded (run ad cs deployed) sid a"
proof -
  from assms titled_listed [of ad cs sid]
  have "title (surveys (run ad cs deployed) sid) = []"
    by blast
  then show ?thesis
    by (simp add: no_title_no_responses)
qed

lemma participants_bounded:
  "unat (participantCount (surveys (run ad cs deployed) sid)) \<le> 2 ^ 160"
proof -
  have "card {a. hasResponded (run ad cs deployed) sid a} \<le> card (UNIV :: address set)"
    by (rule card_mono) simp_all
  then show ?thesis
    by (simp add: counted card_word)
qed

lemma counter_has_room:
  "participantCount (surveys (run ad cs deployed) sid) \<noteq> - 1"
proof
  assume "participantCount (surveys (run ad cs deployed) sid) = - 1"
  then have "unat (- 1 :: uint256) \<le> 2 ^ 160"
    using participants_bounded [of ad cs sid] by simp
  then show False
    by (simp add: unsigned_minus_1_eq_mask mask_eq_exp_minus_1)
qed

lemma no_overflow_in_history:
  "fst (call ad e opn (run ad cs deployed)) \<noteq> Some ArithmeticOverflow"
  using counter_has_room [of ad cs]
  by (cases opn) (auto simp: call_simps split: option.splits)

text \<open>
  A call fails exactly when the body reverts, and then leaves the storage alone. The body
  itself reverts before its first write, unless the revert is the overflow panic.
\<close>

lemma call_fst: "fst (call ad e opn s) = fst (body ad e opn s)"
  by (simp add: call_def split: prod.splits option.splits)

lemma call_failure: "fst (call ad e opn s) = Some err \<Longrightarrow> snd (call ad e opn s) = s"
  by (auto simp: call_def split: prod.splits option.splits)

lemma body_reverts_before_writes:
  assumes "fst (body ad e opn s) = Some err" and "err \<noteq> ArithmeticOverflow"
  shows "snd (body ad e opn s) = s"
proof (cases opn)
  case (CreateSurvey sid t qc)
  with assms show ?thesis
    by (auto simp: createSurvey_def Let_def split: if_splits)
next
  case (SubmitResponse sid ext pf)
  with assms show ?thesis
    by (auto simp: submitResponse_def Let_def split: if_splits option.splits)
next
  case (AggregateResults sid)
  with assms show ?thesis
    by (auto simp: aggregateResults_def Let_def split: if_splits)
next
  case (VerifyResults sid clear pf)
  with assms show ?thesis
    by (auto simp: verifyResults_def Let_def split: if_splits option.splits)
qed

text \<open>In a history of the contract no body reverts after a write.\<close>

lemma validation_precedes_writes:
  assumes "fst (body ad e opn (run ad cs deployed)) = Some err"
  shows "snd (body ad e opn (run ad cs deployed)) = run ad cs deployed"
proof -
  from assms have "err \<noteq> ArithmeticOverflow"
    using no_overflow_in_history [of ad e opn cs] by (auto simp: call_fst)
  with assms show ?thesis
    by (rule body_reverts_before_writes)
qed

text \<open>On a counter at its maximum the body writes the accumulator and then panics.\<close>

lemma st_full_facts:
  "title (surveys st_full ''s1'') = ''Lunch''"
  "isActive (surveys st_full ''s1'')"
  "participantCount (surveys st_full ''s1'') = - 1"
  "encryptedResponse (surveys st_full ''s1'') = 12"
  "\<not> hasResponded st_full ''s1'' 3"
  by (simp_all add: st_full_def st_two_facts) (simp add: demo_defs call_simps)

lemma overflow_write_discarded:
  "fst (body demo_adapter carol (SubmitResponse ''s1'' 1 [1]) st_full)
     = Some ArithmeticOverflow \<and>
   encryptedResponse (surveys st_full ''s1'') = 12 \<and>
   encryptedResponse
     (surveys (snd (body demo_adapter carol (SubmitResponse ''s1'' 1 [1]) st_full)) ''s1'') = 13 \<and>
   snd (call demo_adapter carol (SubmitResponse ''s1'' 1 [1]) st_full) = st_full"
  by (simp add: submitResponse_def Let_def st_full_facts demo_adapter_def carol_def
      call_SubmitResponse)

text \<open>
  As long as no survey is created with the empty title, the identifier list has no
  duplicates and holds exactly the identifiers whose survey exists.
\<close>

lemma registry_step:
  assumes "titled opn"
    and "distinct (surveyIds s) \<and>
      (\<forall>sid. sid \<in> set (surveyIds s) \<longleftrightarrow> title (surveys s sid) \<noteq> [])"
  shows "distinct (surveyIds (snd (call ad e opn s))) \<and>
      (\<forall>sid. sid \<in> set (surveyIds (snd (call ad e opn s)))
         \<longleftrightarrow> title (surveys (snd (call ad e opn s)) sid) \<noteq> [])"
proof (cases opn)
  case (CreateSurvey sid' t qc)
  with assms show ?thesis
    by (auto simp: call_CreateSurvey)
next
  case (SubmitResponse sid' ext pf)
  with assms show ?thesis
    by (simp add: call_SubmitResponse split: option.splits)
next
  case (AggregateResults sid')
  with assms show ?thesis
    by (simp add: call_AggregateResults)
next
  case (VerifyResults sid' clear pf)
  with assms show ?thesis
    by (simp add: call_VerifyResults split: option.splits)
qed

lemma registry_run:
  assumes "\<forall>c \<in> set cs. titled (snd c)"
    and "distinct (surveyIds s) \<and>
      (\<forall>sid. sid \<in> set (surveyIds s) \<longleftrightarrow> title (surveys s sid) \<noteq> [])"
  shows "distinct (surveyIds (run ad cs s)) \<and>
      (\<forall>sid. sid \<in> set (surveyIds (run ad cs s))
         \<longleftrightarrow> title (surveys (run ad cs s) sid) \<noteq> [])"
  using assms
proof (induction cs arbitrary: s)
  case Nil
  then show ?case by simp
next
  case (Cons c cs)
  from Cons.prems have "titled (snd c)"
    by simp
  then have "distinct (surveyIds (snd (call ad (fst c) (snd c) s))) \<and>
      (\<forall>sid. sid \<in> set (surveyIds (snd (call ad (fst c) (snd c) s)))
         \<longleftrightarrow> title (surveys (snd (call ad (fst c) (snd c) s)) sid) \<noteq> [])"
    using Cons.prems(2) by (rule registry_step)
  moreover from Cons.prems have "\<forall>c \<in> set cs. titled (snd c)"
    by simp
  ultimately show ?case
    using Cons.IH by simp
qed

lemma registry_unique:
  assumes "\<forall>c \<in> set cs. titled (snd c)"
  shows "distinct (surveyIds (run ad cs deployed)) \<and>
      (\<forall>sid. sid \<in> set (surveyIds (run ad cs deployed))
         \<longleftrightarrow> title (surveys (run ad cs deployed) sid) \<noteq> [])"
  using assms by (rule registry_run) (simp add: deployed_def zero_Survey_def)

lemma pair_fst_snd: "fst p = a \<Longrightarrow> snd p = b \<Longrightarrow> p = (a, b)"
  by auto

subsection \<open>Response ingestion\<close>

text \<open>
  Claim C4. Whenever \<^verbatim>\<open>submitResponse\<close> is accepted, the library validated the input
  to a ciphertext \<open>c\<close>; the survey's accumulator becomes \<open>c\<close> when the participant count
  was zero and \<^verbatim>\<open>FHE.add\<close> of the old accumulator and \<open>c\<close> otherwise; the caller is
  marked as having responded; and the participant count has grown by exactly one.
\<close>

theorem submitResponse_accumulates:
  assumes "call ad e (SubmitResponse sid ext pf) s = (None, s')"
  shows "\<exists>c. FHE_fromExternal ad ext pf = Some c \<and> FHE_isInitialized ad c \<and>
     encryptedResponse (surveys s' sid) =
       (if participantCount (surveys s sid) = 0 then c
        else FHE_add ad (encryptedResponse (surveys s sid)) c) \<and>
     hasResponded s' sid (msg_sender e) \<and>
     unat (participantCount (surveys s' sid)) = unat (participantCount (surveys s sid)) + 1"
  using assms
  by (auto simp: call_SubmitResponse unat_incr split: if_splits option.splits)

theorem submitResponse_accumulates_witness:
  "call demo_adapter alice (SubmitResponse ''s1'' 5 [1]) st_created = (None, st_one) \<and>
   participantCount (surveys st_created ''s1'') = 0 \<and>
   encryptedResponse (surveys st_one ''s1'') = 5 \<and>
   hasResponded st_one ''s1'' (msg_sender alice) \<and>
   unat (participantCount (surveys st_one ''s1'')) = 1 \<and>
   call demo_adapter bob (SubmitResponse ''s1'' 7 [1]) st_one = (None, st_two) \<and>
   encryptedResponse (surveys st_two ''s1'') = FHE_add demo_adapter 5 7 \<and>
   hasResponded st_two ''s1'' (msg_sender bob) \<and>
   unat (participantCount (surveys st_two ''s1'')) = 2"
proof -
  have h1: "call demo_adapter alice (SubmitResponse ''s1'' 5 [1]) st_created = (None, st_one)"
    by (simp add: demo_defs call_simps)
  have h2: "call demo_adapter bob (SubmitResponse ''s1'' 7 [1]) st_one = (None, st_two)"
    by (simp add: demo_defs call_simps)
  have p0: "participantCount (surveys st_created ''s1'') = 0"
    by (simp add: demo_defs call_simps)
  have e0: "encryptedResponse (surveys st_one ''s1'') = 5"
    by (simp add: demo_defs call_simps)
  have p1: "participantCount (surveys st_one ''s1'') = 1"
    by (simp add: demo_defs call_simps)
  have f5: "FHE_fromExternal demo_adapter 5 [1] = Some 5"
   and f7: "FHE_fromExternal demo_adapter 7 [1] = Some 7"
    by (simp_all add: demo_adapter_def)
  from submitResponse_accumulates [OF h1] submitResponse_accumulates [OF h2]
  show ?thesis
    using h1 h2 p0 e0 p1 f5 f7 by simp
qed

text \<open>
  Claim C5, amended. After one accepted \<^verbatim>\<open>submitResponse\<close> by a principal, every later
  \<^verbatim>\<open>submitResponse\<close> by that principal to the same survey, after any history and with
  any ciphertext, is rejected and leaves the storage, hence the participant count, as it
  was. The error is \<open>DuplicateResponse\<close> as long as the survey is active and \<open>Inactive\<close>
  once it has been finalized: the activity check comes before the participation check.
\<close>

theorem duplicate_response_rejected:
  assumes "call ad e (SubmitResponse sid ext pf) s = (None, s1)"
    and "msg_sender e' = msg_sender e"
  shows "call ad e' (SubmitResponse sid ext' pf') (run ad cs s1) =
      (Some (if isActive (surveys (run ad cs s1) sid) then DuplicateResponse else Inactive),
       run ad cs s1) \<and>
    participantCount (surveys (snd (call ad e' (SubmitResponse sid ext' pf') (run ad cs s1))) sid)
      = participantCount (surveys (run ad cs s1) sid)"
proof -
  from assms(1) have "hasResponded s1 sid (msg_sender e) \<and> title (surveys s1 sid) \<noteq> []"
    by (auto simp: call_SubmitResponse split: if_splits option.splits)
  then have "hasResponded (run ad cs s1) sid (msg_sender e) \<and>
      title (surveys (run ad cs s1) sid) \<noteq> []"
    by (rule responded_after_run)
  with assms(2) show ?thesis
    by (simp add: call_SubmitResponse)
qed

theorem duplicate_response_rejected_witness:
  "call demo_adapter alice (SubmitResponse ''s1'' 5 [1]) st_created = (None, st_one) \<and>
   call demo_adapter alice (SubmitResponse ''s1'' 9 [1]) st_one
     = (Some DuplicateResponse, st_one) \<and>
   call demo_adapter alice (SubmitResponse ''s1'' 9 [1]) st_final = (Some Inactive, st_final)"
proof -
  have h: "call demo_adapter alice (SubmitResponse ''s1'' 5 [1]) st_created = (None, st_one)"
    by (simp add: demo_defs call_simps)
  have a1: "isActive (surveys st_one ''s1'')"
    by (simp add: demo_defs call_simps)
  note d1 = duplicate_response_rejected [OF h refl, of 9 "[1]" "[]"]
  note d2 = duplicate_response_rejected [OF h refl, of 9 "[1]"
      "[(bob, SubmitResponse ''s1'' 7 [1]), (alice, AggregateResults ''s1''),
        (bob, VerifyResults ''s1'' (clear_byte 12) [1])]", folded st_final_history]
  from d1 d2 show ?thesis
    using h a1 st_final_facts by simp
qed

text \<open>
  The claim as first stated asks for \<open>DuplicateResponse\<close> on every later attempt. Alice
  responds; Bob responds; the result is aggregated and verified; Alice's second attempt is
  then rejected with \<open>Inactive\<close>.
\<close>

theorem duplicate_response_counterexample:
  "call demo_adapter alice (SubmitResponse ''s1'' 5 [1]) st_created = (None, st_one) \<and>
   st_final = run demo_adapter
     [(bob, SubmitResponse ''s1'' 7 [1]), (alice, AggregateResults ''s1''),
      (bob, VerifyResults ''s1'' (clear_byte 12) [1])] st_one \<and>
   call demo_adapter alice (SubmitResponse ''s1'' 5 [1]) st_final = (Some Inactive, st_final) \<and>
   fst (call demo_adapter alice (SubmitResponse ''s1'' 5 [1]) st_final)
     \<noteq> Some DuplicateResponse"
proof -
  have "call demo_adapter alice (SubmitResponse ''s1'' 5 [1]) st_created = (None, st_one)"
    by (simp add: demo_defs call_simps)
  moreover have "call demo_adapter alice (SubmitResponse ''s1'' 5 [1]) st_final
      = (Some Inactive, st_final)"
    by (simp add: call_SubmitResponse st_final_facts)
  ultimately show ?thesis
    using st_final_history by simp
qed

subsection \<open>Aggregation\<close>

text \<open>
  Claim C3, amended. \<^verbatim>\<open>aggregateResults\<close> checks, in this order: the survey exists
  (\<open>NotFound\<close>), it is active (\<open>Inactive\<close>), its participant count is not zero
  (\<open>NoResponses\<close>, and on an existing active survey exactly then), no verified result is
  stored (\<open>AlreadyVerified\<close>). Otherwise it succeeds and stores the library's decryption of
  the current accumulator as the sum, \<open>verified = false\<close>, and as the count the participant
  count cast to \<^verbatim>\<open>uint32\<close>: the count modulo \<open>2 ^ 32\<close>, which is the participant count
  itself as long as that is below \<open>2 ^ 32\<close>. The stored result replaces the previous one.
\<close>

theorem aggregateResults_outcomes:
  "(title (surveys s sid) = [] \<longrightarrow>
      call ad e (AggregateResults sid) s = (Some NotFound, s)) \<and>
   (title (surveys s sid) \<noteq> [] \<and> \<not> isActive (surveys s sid) \<longrightarrow>
      call ad e (AggregateResults sid) s = (Some Inactive, s)) \<and>
   (title (surveys s sid) \<noteq> [] \<and> isActive (surveys s sid) \<longrightarrow>
      (call ad e (AggregateResults sid) s = (Some NoResponses, s)
         \<longleftrightarrow> participantCount (surveys s sid) = 0)) \<and>
   (title (surveys s sid) \<noteq> [] \<and> isActive (surveys s sid) \<and>
    participantCount (surveys s sid) \<noteq> 0 \<and> isVerified (results s sid) \<longrightarrow>
      call ad e (AggregateResults sid) s = (Some AlreadyVerified, s)) \<and>
   (title (surveys s sid) \<noteq> [] \<and> isActive (surveys s sid) \<and>
    participantCount (surveys s sid) \<noteq> 0 \<and> \<not> isVerified (results s sid) \<longrightarrow>
      fst (call ad e (AggregateResults sid) s) = None) \<and>
   (call ad e (AggregateResults sid) s = (None, s') \<longrightarrow>
      results s' sid =
        \<lparr>sum_agg = FHE_decrypt ad (encryptedResponse (surveys s sid)),
         count_agg = ucast (participantCount (surveys s sid)),
         isVerified = False\<rparr> \<and>
      unat (count_agg (results s' sid)) = unat (participantCount (surveys s sid)) mod 2 ^ 32 \<and>
      (unat (participantCount (surveys s sid)) < 2 ^ 32 \<longrightarrow>
         unat (count_agg (results s' sid)) = unat (participantCount (surveys s sid))) \<and>
      surveys s' = surveys s \<and> hasResponded s' = hasResponded s)"
  by (auto simp: call_AggregateResults count_truncated)

theorem aggregateResults_outcomes_witness:
  "call demo_adapter alice (AggregateResults ''s1'') deployed = (Some NotFound, deployed) \<and>
   call demo_adapter alice (AggregateResults ''s1'') st_final = (Some Inactive, st_final) \<and>
   call demo_adapter alice (AggregateResults ''s1'') st_created
     = (Some NoResponses, st_created) \<and>
   call demo_adapter alice (AggregateResults ''s1'') st_odd = (Some AlreadyVerified, st_odd) \<and>
   call demo_adapter alice (AggregateResults ''s1'') st_two = (None, st_agg) \<and>
   results st_agg ''s1'' = \<lparr>sum_agg = 12, count_agg = 2, isVerified = False\<rparr> \<and>
   unat (count_agg (results st_agg ''s1'')) = unat (participantCount (surveys st_two ''s1''))"
proof -
  have blank: "title (surveys deployed ''s1'') = []"
    by (simp add: deployed_def zero_Survey_def)
  have odd: "title (surveys st_odd ''s1'') \<noteq> []" "isActive (surveys st_odd ''s1'')"
    "participantCount (surveys st_odd ''s1'') \<noteq> 0" "isVerified (results st_odd ''s1'')"
    by (simp_all add: st_odd_def st_two_facts)
  have ok: "call demo_adapter alice (AggregateResults ''s1'') st_two = (None, st_agg)"
    by (simp add: st_agg_def call_AggregateResults st_two_facts)
  have small: "unat (participantCount (surveys st_two ''s1'')) < 2 ^ 32"
    by (simp add: st_two_facts)
  have dec: "FHE_decrypt demo_adapter 12 = 12"
    by (simp add: demo_adapter_def)
  note a = aggregateResults_outcomes [where ad = demo_adapter and e = alice and sid = "''s1''"]
  have c1: "call demo_adapter alice (AggregateResults ''s1'') deployed = (Some NotFound, deployed)"
    using a [of deployed st_agg] blank by blast
  have c2: "call demo_adapter alice (AggregateResults ''s1'') st_final = (Some Inactive, st_final)"
    using a [of st_final st_agg] st_final_facts by simp
  have c3: "call demo_adapter alice (AggregateResults ''s1'') st_created
      = (Some NoResponses, st_created)"
    using a [of st_created st_agg] st_created_facts by simp
  have c4: "call demo_adapter alice (AggregateResults ''s1'') st_odd = (Some AlreadyVerified, st_odd)"
    using a [of st_odd st_agg] odd by blast
  have c5: "results st_agg ''s1'' = \<lparr>sum_agg = 12, count_agg = 2, isVerified = False\<rparr> \<and>
      unat (count_agg (results st_agg ''s1'')) = unat (participantCount (surveys st_two ''s1''))"
    using a [of st_two st_agg] ok small dec by (simp add: st_two_facts)
  from c1 c2 c3 c4 c5 ok show ?thesis
    by blast
qed

text \<open>
  The claim as first stated makes the stored count the participant count. After
  \<open>2 ^ 32\<close> principals have responded, aggregation succeeds and stores the count \<open>0\<close>.
\<close>

theorem aggregate_count_counterexample:
  "fst (call demo_adapter alice (AggregateResults ''s1'') st_crowded) = None \<and>
   unat (participantCount (surveys st_crowded ''s1'')) = 4294967296 \<and>
   unat (count_agg (results (snd (call demo_adapter alice (AggregateResults ''s1'') st_crowded))
     ''s1'')) = 0"
proof -
  have pc: "participantCount (surveys st_crowded ''s1'') = 4294967296"
    by (simp add: st_crowded_eq crowd_state_def)
  have live: "title (surveys st_crowded ''s1'') \<noteq> []" "isActive (surveys st_crowded ''s1'')"
    "\<not> isVerified (results st_crowded ''s1'')"
    by (simp_all add: st_crowded_eq crowd_state_def zero_Result_def)
  show ?thesis
    by (simp add: call_AggregateResults pc live)
qed

subsection \<open>Verification\<close>

text \<open>
  Claim C2. On an existing survey whose result is not yet verified, \<^verbatim>\<open>verifyResults\<close>
  fails with \<open>ProofInvalid\<close> when the library rejects the decryption proof for the survey's
  current accumulator; it fails with \<open>MismatchedClaim\<close> when the proof is accepted and the
  decoded clear value differs from the stored sum; it succeeds when the proof is accepted and
  the decoded clear value is the stored sum; and on success the result is marked verified,
  sum and count untouched, and the survey is no longer active.
\<close>

theorem verifyResults_outcomes:
  assumes "title (surveys s sid) \<noteq> []" and "\<not> isVerified (results s sid)"
  shows
    "(\<not> FHE_checkSignatures ad [FHE_toBytes32 (encryptedResponse (surveys s sid))] clear pf \<longrightarrow>
        call ad e (VerifyResults sid clear pf) s = (Some ProofInvalid, s)) \<and>
     (FHE_checkSignatures ad [FHE_toBytes32 (encryptedResponse (surveys s sid))] clear pf \<and>
      abi_decode_uint32 clear = Some v \<and> v \<noteq> sum_agg (results s sid) \<longrightarrow>
        call ad e (VerifyResults sid clear pf) s = (Some MismatchedClaim, s)) \<and>
     (FHE_checkSignatures ad [FHE_toBytes32 (encryptedResponse (surveys s sid))] clear pf \<and>
      abi_decode_uint32 clear = Some (sum_agg (results s sid)) \<longrightarrow>
        fst (call ad e (VerifyResults sid clear pf) s) = None) \<and>
     (call ad e (VerifyResults sid clear pf) s = (None, s') \<longrightarrow>
        results s' sid = (results s sid)\<lparr>isVerified := True\<rparr> \<and>
        isVerified (results s' sid) \<and> \<not> isActive (surveys s' sid))"
  using assms
  by (auto simp: call_VerifyResults FHE_toBytes32_def split: option.splits)

theorem verifyResults_outcomes_witness:
  "call demo_adapter bob (VerifyResults ''s1'' (clear_byte 12) [0]) st_agg
     = (Some ProofInvalid, st_agg) \<and>
   call demo_adapter bob (VerifyResults ''s1'' (clear_byte 13) [1]) st_late
     = (Some MismatchedClaim, st_late) \<and>
   call demo_adapter bob (VerifyResults ''s1'' (clear_byte 12) [1]) st_agg = (None, st_final) \<and>
   isVerified (results st_final ''s1'') \<and> \<not> isActive (surveys st_final ''s1'')"
proof -
  have ok: "call demo_adapter bob (VerifyResults ''s1'' (clear_byte 12) [1]) st_agg
      = (None, st_final)"
    by (simp add: st_final_def call_VerifyResults st_agg_facts clear_bytes demo_adapter_def)
  have bad: "\<not> FHE_checkSignatures demo_adapter
      [FHE_toBytes32 (encryptedResponse (surveys st_agg ''s1''))] (clear_byte 12) [0]"
    by (simp add: demo_adapter_def)
  have late: "FHE_checkSignatures demo_adapter
      [FHE_toBytes32 (encryptedResponse (surveys st_late ''s1''))] (clear_byte 13) [1] \<and>
      abi_decode_uint32 (clear_byte 13) = Some 13 \<and> 13 \<noteq> sum_agg (results st_late ''s1'')"
    by (simp add: demo_adapter_def st_late_facts clear_bytes FHE_toBytes32_def)
  from verifyResults_outcomes [where s = st_agg and sid = "''s1''" and ad = demo_adapter
      and clear = "clear_byte 12" and pf = "[0]" and v = 12 and e = bob and s' = st_final]
    verifyResults_outcomes [where s = st_late and sid = "''s1''" and ad = demo_adapter
      and clear = "clear_byte 13" and pf = "[1]" and v = 13 and e = bob and s' = st_final]
    verifyResults_outcomes [where s = st_agg and sid = "''s1''" and ad = demo_adapter
      and clear = "clear_byte 12" and pf = "[1]" and v = 12 and e = bob and s' = st_final]
  show ?thesis
    using ok bad late by (simp add: st_agg_facts st_late_facts)
qed

text \<open>
  Claim C10. In a history that never called \<^verbatim>\<open>aggregateResults\<close> on a survey, the
  stored result of an existing, unverified survey is the zero value
  \<open>{sum: 0, count: 0, verified: false}\<close>. \<^verbatim>\<open>verifyResults\<close> does not ask for a prior
  aggregation: with a decryption proof that the library accepts for the current accumulator
  and a clear value that decodes to \<open>0\<close> it succeeds, and the survey is finalized with sum
  \<open>0\<close> and count \<open>0\<close>.
\<close>

theorem verify_without_aggregate:
  assumes never: "AggregateResults sid \<notin> snd ` set cs"
    and s: "s = run ad cs deployed"
    and exists: "title (surveys s sid) \<noteq> []"
    and fresh: "\<not> isVerified (results s sid)"
    and proof_ok: "FHE_checkSignatures ad [FHE_toBytes32 (encryptedResponse (surveys s sid))]
        clear pf"
    and zero: "abi_decode_uint32 clear = Some 0"
  shows "results s sid = \<lparr>sum_agg = 0, count_agg = 0, isVerified = False\<rparr> \<and>
    (\<exists>s'. call ad e (VerifyResults sid clear pf) s = (None, s') \<and>
       results s' sid = \<lparr>sum_agg = 0, count_agg = 0, isVerified = True\<rparr> \<and>
       \<not> isActive (surveys s' sid))"
proof -
  have "sum_agg (results deployed sid) = 0 \<and> count_agg (results deployed sid) = 0"
    by (simp add: deployed_def zero_Result_def)
  with never have "sum_agg (results s sid) = 0 \<and> count_agg (results s sid) = 0"
    unfolding s by (rule unaggregated_run)
  with fresh have r: "results s sid = \<lparr>sum_agg = 0, count_agg = 0, isVerified = False\<rparr>"
    by (cases "results s sid") simp
  with exists proof_ok zero show ?thesis
    by (simp add: call_VerifyResults FHE_toBytes32_def)
qed

theorem verify_without_aggregate_witness:
  "st_created = run demo_adapter [(alice, CreateSurvey ''s1'' ''Lunch'' 3)] deployed \<and>
   results st_created ''s1'' = \<lparr>sum_agg = 0, count_agg = 0, isVerified = False\<rparr> \<and>
   (\<exists>s'. call demo_adapter bob (VerifyResults ''s1'' (clear_byte 0) [1]) st_created = (None, s') \<and>
      results s' ''s1'' = \<lparr>sum_agg = 0, count_agg = 0, isVerified = True\<rparr> \<and>
      \<not> isActive (surveys s' ''s1''))"
proof -
  have never: "AggregateResults ''s1'' \<notin> snd ` set [(alice, CreateSurvey ''s1'' ''Lunch'' 3)]"
    by simp
  have ok: "FHE_checkSignatures demo_adapter
      [FHE_toBytes32 (encryptedResponse (surveys st_created ''s1''))] (clear_byte 0) [1]"
    by (simp add: demo_adapter_def st_created_facts FHE_toBytes32_def clear_bytes)
  have fresh: "\<not> isVerified (results st_created ''s1'')"
    by (simp add: st_created_facts zero_Result_def)
  have ex: "title (surveys st_created ''s1'') \<noteq> []"
    by (simp add: st_created_facts)
  from verify_without_aggregate [OF never st_created_def ex fresh ok clear_bytes(3), of bob]
  show ?thesis
    by (simp add: st_created_def)
qed

text \<open>
  Claim C6. In every history, a survey whose result is verified is not active; and after
  any further calls it is still not active and still verified, \<^verbatim>\<open>submitResponse\<close> fails
  with \<open>Inactive\<close>, \<^verbatim>\<open>aggregateResults\<close> fails (with \<open>Inactive\<close>), and
  \<^verbatim>\<open>verifyResults\<close> fails with \<open>AlreadyVerified\<close>. So verification succeeds at most
  once per survey and is never undone.
\<close>

theorem verification_is_terminal:
  assumes "isVerified (results (run ad cs deployed) sid)"
  shows "\<not> isActive (surveys (run ad cs deployed) sid) \<and>
    \<not> isActive (surveys (run ad (cs @ cs') deployed) sid) \<and>
    isVerified (results (run ad (cs @ cs') deployed) sid) \<and>
    call ad e1 (SubmitResponse sid ext pf) (run ad (cs @ cs') deployed)
      = (Some Inactive, run ad (cs @ cs') deployed) \<and>
    call ad e2 (AggregateResults sid) (run ad (cs @ cs') deployed)
      = (Some Inactive, run ad (cs @ cs') deployed) \<and>
    call ad e3 (VerifyResults sid clear prf) (run ad (cs @ cs') deployed)
      = (Some AlreadyVerified, run ad (cs @ cs') deployed)"
proof -
  from assms verified_closed [of ad cs sid]
  have fin: "isVerified (results (run ad cs deployed) sid) \<and>
      title (surveys (run ad cs deployed) sid) \<noteq> [] \<and>
      \<not> isActive (surveys (run ad cs deployed) sid)"
    by simp
  then have "isVerified (results (run ad cs' (run ad cs deployed)) sid) \<and>
      title (surveys (run ad cs' (run ad cs deployed)) sid) \<noteq> [] \<and>
      \<not> isActive (surveys (run ad cs' (run ad cs deployed)) sid)"
    by (rule finalized_after_run)
  with fin show ?thesis
    by (simp add: run_append call_simps)
qed

theorem verification_is_terminal_witness:
  "isVerified (results st_final ''s1'') \<and>
   \<not> isActive (surveys st_final ''s1'') \<and>
   run demo_adapter history_after st_final = st_final \<and>
   call demo_adapter carol (SubmitResponse ''s1'' 1 [1]) st_final = (Some Inactive, st_final) \<and>
   call demo_adapter alice (AggregateResults ''s1'') st_final = (Some Inactive, st_final) \<and>
   call demo_adapter bob (VerifyResults ''s1'' (clear_byte 12) [1]) st_final
     = (Some AlreadyVerified, st_final)"
proof -
  have v: "isVerified (results (run demo_adapter history_final deployed) ''s1'')"
    by (simp add: st_final_run st_final_facts)
  have same: "run demo_adapter history_after st_final = st_final"
    by (simp add: history_after_def call_simps st_final_facts)
  then have same': "run demo_adapter (history_final @ history_after) deployed = st_final"
    by (simp add: run_append st_final_run)
  note t = verification_is_terminal [OF v, of history_after carol 1 "[1]" alice bob
      "clear_byte 12" "[1]", unfolded same' st_final_run]
  from t same show ?thesis
    by simp
qed

subsection \<open>Responses between aggregation and verification\<close>

text \<open>
  Claim C8. After a successful \<^verbatim>\<open>aggregateResults\<close> in any history, the survey is still
  active and unverified, and the recorded sum is the decryption of the accumulator at that
  moment. A principal who has not responded yet and whose input the library accepts is
  then still accepted: the accumulator becomes \<^verbatim>\<open>FHE.add\<close> of the old one and the new
  ciphertext while the recorded result stays as it was. The witness is such a history, in
  which the accumulator moves from 12 to 13 under a recorded sum of 12.
\<close>

theorem responses_accepted_after_aggregate:
  assumes s: "s = run ad cs deployed"
    and agg: "call ad e (AggregateResults sid) s = (None, s1)"
    and new: "\<not> hasResponded s sid (msg_sender e')"
    and valid: "FHE_fromExternal ad ext pf = Some c" "FHE_isInitialized ad c"
  shows "isActive (surveys s1 sid) \<and> \<not> isVerified (results s1 sid) \<and>
    sum_agg (results s1 sid) = FHE_decrypt ad (encryptedResponse (surveys s1 sid)) \<and>
    (\<exists>s2. call ad e' (SubmitResponse sid ext pf) s1 = (None, s2) \<and>
       encryptedResponse (surveys s2 sid) = FHE_add ad (encryptedResponse (surveys s1 sid)) c \<and>
       results s2 sid = results s1 sid \<and> isActive (surveys s2 sid))"
proof -
  have "participantCount (surveys s sid) \<noteq> - 1"
    unfolding s by (rule counter_has_room)
  with agg new valid show ?thesis
    by (auto simp: call_AggregateResults call_SubmitResponse split: if_splits)
qed

theorem responses_accepted_after_aggregate_witness:
  "st_late = run demo_adapter
     [(alice, CreateSurvey ''s1'' ''Lunch'' 3),
      (alice, SubmitResponse ''s1'' 5 [1]),
      (bob, SubmitResponse ''s1'' 7 [1]),
      (alice, AggregateResults ''s1''),
      (carol, SubmitResponse ''s1'' 1 [1])] deployed \<and>
   call demo_adapter alice (AggregateResults ''s1'') st_two = (None, st_agg) \<and>
   isActive (surveys st_agg ''s1'') \<and>
   call demo_adapter carol (SubmitResponse ''s1'' 1 [1]) st_agg = (None, st_late) \<and>
   encryptedResponse (surveys st_agg ''s1'') = 12 \<and>
   encryptedResponse (surveys st_late ''s1'') = 13 \<and>
   sum_agg (results st_late ''s1'') = 12 \<and>
   FHE_decrypt demo_adapter (encryptedResponse (surveys st_late ''s1'')) = 13"
proof -
  have agg: "call demo_adapter alice (AggregateResults ''s1'') st_two = (None, st_agg)"
    by (simp add: st_agg_def call_AggregateResults st_two_facts)
  have new: "\<not> hasResponded st_two ''s1'' (msg_sender carol)"
    by (simp add: demo_defs call_simps)
  have valid: "FHE_fromExternal demo_adapter 1 [1] = Some 1" "FHE_isInitialized demo_adapter 1"
    by (simp_all add: demo_adapter_def)
  have hist: "st_two = run demo_adapter
      [(alice, CreateSurvey ''s1'' ''Lunch'' 3), (alice, SubmitResponse ''s1'' 5 [1]),
       (bob, SubmitResponse ''s1'' 7 [1])] deployed"
    by (simp add: st_two_def st_one_def st_created_def)
  have sub: "snd (call demo_adapter carol (SubmitResponse ''s1'' 1 [1]) st_agg) = st_late"
    by (simp add: st_late_def)
  have dec: "FHE_decrypt demo_adapter 13 = 13"
    by (simp add: demo_adapter_def)
  from responses_accepted_after_aggregate [OF hist agg new valid]
  have "isActive (surveys st_agg ''s1'') \<and>
      call demo_adapter carol (SubmitResponse ''s1'' 1 [1]) st_agg = (None, st_late)"
    using sub by auto
  then have rest: "call demo_adapter alice (AggregateResults ''s1'') st_two = (None, st_agg) \<and>
      isActive (surveys st_agg ''s1'') \<and>
      call demo_adapter carol (SubmitResponse ''s1'' 1 [1]) st_agg = (None, st_late) \<and>
      encryptedResponse (surveys st_agg ''s1'') = 12 \<and>
      encryptedResponse (surveys st_late ''s1'') = 13 \<and>
      sum_agg (results st_late ''s1'') = 12 \<and>
      FHE_decrypt demo_adapter (encryptedResponse (surveys st_late ''s1'')) = 13"
    using agg dec by (simp add: st_agg_facts st_late_facts)
  from st_late_run [symmetric] rest show ?thesis
    by (rule conjI)
qed

subsection \<open>Creation\<close>

text \<open>
  Claim C1, at the input where the code departs from it. The existence test of the contract
  is "the stored title is not empty". A survey created with the empty title is appended to
  \<^verbatim>\<open>surveyIds\<close> but still counts as absent: a second \<^verbatim>\<open>createSurvey\<close> with the same
  identifier succeeds, overwrites the record and appends the identifier again.
\<close>

theorem createSurvey_blank_title_twice:
  "call demo_adapter alice (CreateSurvey ''s1'' [] 3) deployed = (None, st_blank) \<and>
   surveyIds st_blank = [''s1''] \<and>
   creator (surveys st_blank ''s1'') = 1 \<and>
   fst (call demo_adapter bob (CreateSurvey ''s1'' [] 5) st_blank) = None \<and>
   surveyIds (snd (call demo_adapter bob (CreateSurvey ''s1'' [] 5) st_blank))
     = [''s1'', ''s1''] \<and>
   creator (surveys (snd (call demo_adapter bob (CreateSurvey ''s1'' [] 5) st_blank)) ''s1'') = 2"
  by (simp add: st_blank_def call_CreateSurvey deployed_def zero_Survey_def alice_def bob_def)

text \<open>
  What creation does in general, and the registry as long as every title is non-empty:
  creation then fails exactly on the identifiers of the list.
\<close>

lemma createSurvey_registers:
  assumes "call ad e (CreateSurvey sid t qc) s = (None, s')"
  shows "title (surveys s sid) = [] \<and>
    surveys s' sid = \<lparr>title = t, encryptedResponse = 0, participantCount = 0,
      questionCount = qc, creator = msg_sender e, createdAt = block_timestamp e,
      isActive = True\<rparr> \<and>
    surveyIds s' = surveyIds s @ [sid]"
  using assms by (auto simp: call_CreateSurvey split: if_splits)

lemma createSurvey_fails_iff:
  "call ad e (CreateSurvey sid t qc) s = (Some AlreadyExists, s) \<longleftrightarrow> title (surveys s sid) \<noteq> []"
  by (simp add: call_CreateSurvey)

lemma createSurvey_fails_iff_registered:
  assumes "\<forall>c \<in> set cs. titled (snd c)"
  shows "fst (call ad e (CreateSurvey sid t qc) (run ad cs deployed)) = Some AlreadyExists
    \<longleftrightarrow> sid \<in> set (surveyIds (run ad cs deployed))"
  using registry_unique [OF assms, of ad] by (simp add: call_CreateSurvey)

subsection \<open>Queries\<close>

text \<open>
  Claim C9, amended. The view functions return a value and no storage. In every history
  of the contract: for a survey that was never created, \<^verbatim>\<open>getSurvey\<close> and
  \<^verbatim>\<open>getResults\<close> fail with \<open>NotFound\<close> and \<^verbatim>\<open>hasUserResponded\<close> returns
  \<open>false\<close>; for a survey that exists (it has a stored title, and is then on the
  identifier list), \<^verbatim>\<open>getSurvey\<close> and \<^verbatim>\<open>getResults\<close> return the values currently
  stored in the survey record and in the aggregation result; and \<^verbatim>\<open>hasUserResponded\<close>
  never fails, it returns the stored participation flag. Nothing is said here about what
  \<^verbatim>\<open>getSurvey\<close> and \<^verbatim>\<open>getResults\<close> return for a survey created with the empty title.
\<close>

theorem queries_return_snapshot:
  assumes "s = run ad cs deployed"
  shows
    "(sid \<notin> set (surveyIds s) \<longrightarrow>
        getSurvey sid s = Inl NotFound \<and> getResults sid s = Inl NotFound \<and>
        hasUserResponded sid user s = Inr False) \<and>
     (title (surveys s sid) \<noteq> [] \<longrightarrow>
        sid \<in> set (surveyIds s) \<and>
        getSurvey sid s =
          Inr (title (surveys s sid), participantCount (surveys s sid),
               questionCount (surveys s sid), creator (surveys s sid),
               createdAt (surveys s sid), isActive (surveys s sid)) \<and>
        getResults sid s =
          Inr (sum_agg (results s sid), count_agg (results s sid),
               isVerified (results s sid))) \<and>
     hasUserResponded sid user s = Inr (hasResponded s sid user)"
proof -
  have never: "getSurvey sid s = Inl NotFound \<and> getResults sid s = Inl NotFound \<and>
      hasUserResponded sid user s = Inr False" if "sid \<notin> set (surveyIds s)"
    using unlisted_silent [of sid ad cs user] that
    by (simp add: assms getSurvey_def getResults_def hasUserResponded_def)
  have listed: "sid \<in> set (surveyIds s)" if "title (surveys s sid) \<noteq> []"
    using titled_listed [of ad cs sid] that by (simp add: assms)
  show ?thesis
    using never listed
    by (simp add: getSurvey_def getResults_def hasUserResponded_def Let_def)
qed

theorem queries_return_snapshot_witness:
  "st_agg = run demo_adapter
     [(alice, CreateSurvey ''s1'' ''Lunch'' 3), (alice, SubmitResponse ''s1'' 5 [1]),
      (bob, SubmitResponse ''s1'' 7 [1]), (alice, AggregateResults ''s1'')] deployed \<and>
   ''nobody'' \<notin> set (surveyIds st_agg) \<and>
   getSurvey ''nobody'' st_agg = Inl NotFound \<and>
   getResults ''nobody'' st_agg = Inl NotFound \<and>
   hasUserResponded ''nobody'' 1 st_agg = Inr False \<and>
   getSurvey ''s1'' st_agg = Inr (''Lunch'', 2, 3, 1, 1000, True) \<and>
   getResults ''s1'' st_agg = Inr (12, 2, False) \<and>
   hasUserResponded ''s1'' 1 st_agg = Inr True \<and>
   hasUserResponded ''s1'' 3 st_agg = Inr False"
proof -
  note q = queries_return_snapshot [OF st_agg_history]
  have absent: "''nobody'' \<notin> set (surveyIds st_agg)"
    by (simp add: st_agg_record)
  have n: "getSurvey ''nobody'' st_agg = Inl NotFound \<and>
      getResults ''nobody'' st_agg = Inl NotFound \<and>
      hasUserResponded ''nobody'' 1 st_agg = Inr False"
    using q [of "''nobody''" 1] absent by blast
  have present: "title (surveys st_agg ''s1'') \<noteq> []"
    by (simp add: st_agg_facts)
  have g: "getSurvey ''s1'' st_agg = Inr (''Lunch'', 2, 3, 1, 1000, True) \<and>
      getResults ''s1'' st_agg = Inr (12, 2, False)"
    using q [of "''s1''" 1] present by (simp add: st_agg_facts st_agg_record)
  have h1: "hasUserResponded ''s1'' 1 st_agg = Inr True"
    using q [of "''s1''" 1] by (simp add: st_agg_record)
  have h3: "hasUserResponded ''s1'' 3 st_agg = Inr False"
    using q [of "''s1''" 3] by (simp add: st_agg_record)
  from st_agg_history absent n g h1 h3 show ?thesis
    by blast
qed

text \<open>
  The claim as first stated makes all three queries fail with \<open>NotFound\<close> on an unknown
  survey. On the freshly deployed contract, where no survey was ever created,
  \<^verbatim>\<open>hasUserResponded\<close> returns \<open>false\<close>.
\<close>

theorem hasUserResponded_counterexample:
  "''nobody'' \<notin> set (surveyIds deployed) \<and>
   title (surveys deployed ''nobody'') = [] \<and>
   getSurvey ''nobody'' deployed = Inl NotFound \<and>
   hasUserResponded ''nobody'' 1 deployed = Inr False \<and>
   hasUserResponded ''nobody'' 1 deployed \<noteq> Inl NotFound"
  by (simp add: getSurvey_def hasUserResponded_def deployed_def zero_Survey_def)

subsection \<open>Failures\<close>

text \<open>
  Claim C7. Whatever the operation, the library, the caller and the storage: when a call
  fails, the storage after the call is the storage before it. In the function bodies every
  \<^verbatim>\<open>require\<close>, every library check and the decoding of the clear value come before the
  first write, so the body itself has written nothing when it reverts; the one revert that
  follows a write is the overflow panic of the checked increment, whose write the reverted
  transaction discards.
\<close>

theorem failed_call_leaves_storage:
  assumes "fst (call ad e opn s) = Some err"
  shows "snd (call ad e opn s) = s \<and> fst (body ad e opn s) = Some err \<and>
    (err \<noteq> ArithmeticOverflow \<longrightarrow> snd (body ad e opn s) = s)"
proof -
  from assms have "snd (call ad e opn s) = s"
    by (rule call_failure)
  moreover from assms have "fst (body ad e opn s) = Some err"
    by (simp add: call_fst)
  ultimately show ?thesis
    by (auto intro: body_reverts_before_writes)
qed

theorem failed_call_leaves_storage_witness:
  "call demo_adapter alice (CreateSurvey ''s1'' ''Other'' 9) st_created
     = (Some AlreadyExists, st_created) \<and>
   call demo_adapter bob (SubmitResponse ''s1'' 5 []) st_created
     = (Some InvalidCiphertext, st_created) \<and>
   call demo_adapter alice (AggregateResults ''s1'') st_created
     = (Some NoResponses, st_created) \<and>
   call demo_adapter bob (VerifyResults ''s1'' (clear_byte 12) [0]) st_agg
     = (Some ProofInvalid, st_agg) \<and>
   call demo_adapter carol (SubmitResponse ''s1'' 1 [1]) st_full
     = (Some ArithmeticOverflow, st_full)"
proof -
  have f1: "fst (call demo_adapter alice (CreateSurvey ''s1'' ''Other'' 9) st_created)
      = Some AlreadyExists"
    by (simp add: call_CreateSurvey st_created_facts)
  have f2: "fst (call demo_adapter bob (SubmitResponse ''s1'' 5 []) st_created)
      = Some InvalidCiphertext"
    by (simp add: demo_defs call_simps)
  have f3: "fst (call demo_adapter alice (AggregateResults ''s1'') st_created)
      = Some NoResponses"
    by (simp add: call_AggregateResults st_created_facts)
  have f4: "fst (call demo_adapter bob (VerifyResults ''s1'' (clear_byte 12) [0]) st_agg)
      = Some ProofInvalid"
    by (simp add: call_VerifyResults st_agg_facts demo_adapter_def)
  have f5: "fst (call demo_adapter carol (SubmitResponse ''s1'' 1 [1]) st_full)
      = Some ArithmeticOverflow"
    by (simp add: call_SubmitResponse st_full_facts demo_adapter_def carol_def)
  have c1: "call demo_adapter alice (CreateSurvey ''s1'' ''Other'' 9) st_created
      = (Some AlreadyExists, st_created)"
    using f1 failed_call_leaves_storage [OF f1] by (simp add: pair_fst_snd)
  have c2: "call demo_adapter bob (SubmitResponse ''s1'' 5 []) st_created
      = (Some InvalidCiphertext, st_created)"
    using f2 failed_call_leaves_storage [OF f2] by (simp add: pair_fst_snd)
  have c3: "call demo_adapter alice (AggregateResults ''s1'') st_created
      = (Some NoResponses, st_created)"
    using f3 failed_call_leaves_storage [OF f3] by (simp add: pair_fst_snd)
  have c4: "call demo_adapter bob (VerifyResults ''s1'' (clear_byte 12) [0]) st_agg
      = (Some ProofInvalid, st_agg)"
    using f4 failed_call_leaves_storage [OF f4] by (simp add: pair_fst_snd)
  have c5: "call demo_adapter carol (SubmitResponse ''s1'' 1 [1]) st_full
      = (Some ArithmeticOverflow, st_full)"
    using f5 failed_call_leaves_storage [OF f5] by (simp add: pair_fst_snd)
  from c1 c2 c3 c4 c5 show ?thesis
    by blast
qed

end
